theory Spec2Isabelle
  imports Main "HOL-Library.Word"
begin

section \<open>Data model\<close>

text \<open>
  Go values are modelled as follows.  A Go \<^verbatim>\<open>string\<close> is a list of bytes
  (\<^typ>\<open>string\<close>); a pointer field \<^verbatim>\<open>*T\<close> is a \<^typ>\<open>'a option\<close> with
  \<^term>\<open>None\<close> for \<^verbatim>\<open>nil\<close>; a \<^verbatim>\<open>map[string]string\<close> is a partial function;
  \<^verbatim>\<open>int64\<close> and \<^verbatim>\<open>int\<close> values are integers (no arithmetic that could overflow is
  performed on them here); a point in time is a number of nanoseconds.  A value of the
  interface type \<^verbatim>\<open>error\<close> is a \<^typ>\<open>'a option\<close> over the errors below, with
  \<^term>\<open>None\<close> for the nil error.
\<close>

type_synonym Time = int
type_synonym gomap = "string \<rightharpoonup> string"

text \<open>\<^verbatim>\<open>codes.Code\<close> of gRPC is an unsigned 32 bit number.\<close>

type_synonym Code = "32 word"

definition OK :: Code where "OK = 0"
definition Canceled :: Code where "Canceled = 1"
definition Unknown :: Code where "Unknown = 2"
definition DeadlineExceeded :: Code where "DeadlineExceeded = 4"
definition ResourceExhausted :: Code where "ResourceExhausted = 8"
definition Aborted :: Code where "Aborted = 10"
definition Unavailable :: Code where "Unavailable = 14"

text \<open>
  An error either implements \<^verbatim>\<open>GRPCStatus()\<close> (it carries a status with a code and
  a message), or is an error of some other package, given by its text, or is built by
  \<^verbatim>\<open>fmt.Errorf\<close> without wrapping.  The latter is kept as the format and its
  arguments (a string, or an error printed by the verb at its position): the text is
  not rendered, so that the quoting done by \<^verbatim>\<open>%q\<close> and \<^verbatim>\<open>%#v\<close> needs no model.
  The controllers' own \<^verbatim>\<open>controllerUpdateError\<close> holds such a formatted message.
\<close>

datatype go_error =
    StatusError Code string
  | OtherError string
  | Errorf string "(string + go_error) list"
  | controllerUpdateError string "(string + go_error) list"

type_synonym error = "go_error option"

text \<open>A run-time panic of the Go code is an outcome of its own.\<close>

datatype 'a outcome = Return 'a | Panic string

record grpc_Status =
  status_code :: Code
  status_message :: string

record ObjectMeta =
  Name :: string
  Namespace :: string
  UID :: string
  ResourceVersion :: string
  DeletionTimestamp :: "Time option"
  Annotations :: gomap
  Labels :: gomap
  Finalizers :: "string list"

record ObjectReference =
  ref_Name :: string
  ref_Namespace :: string
  ref_UID :: string

record VolumeNfsExportError =
  Time :: "Time option"
  Message :: "string option"

record VolumeNfsExportContentSource =
  VolumeHandle :: "string option"
  NfsExportHandle :: "string option"

record VolumeNfsExportContentSpec =
  VolumeNfsExportRef :: ObjectReference
  DeletionPolicy :: string
  Driver :: string
  VolumeNfsExportClassName :: "string option"
  Source :: VolumeNfsExportContentSource
  SourceVolumeMode :: "string option"

record VolumeNfsExportContentStatus =
  status_NfsExportHandle :: "string option"
  status_CreationTime :: "int option"
  status_RestoreSize :: "int option"
  status_ReadyToUse :: "bool option"
  status_Error :: "VolumeNfsExportError option"

record VolumeNfsExportContent =
  content_ObjectMeta :: ObjectMeta
  content_Spec :: VolumeNfsExportContentSpec
  content_Status :: "VolumeNfsExportContentStatus option"

record VolumeNfsExportSource =
  PersistentVolumeClaimName :: "string option"
  VolumeNfsExportContentName :: "string option"

record VolumeNfsExportSpec =
  nfsexport_Source :: VolumeNfsExportSource
  nfsexport_ClassName :: "string option"

record VolumeNfsExportStatus =
  BoundVolumeNfsExportContentName :: "string option"
  nfsexport_CreationTime :: "Time option"
  nfsexport_ReadyToUse :: "bool option"
  nfsexport_RestoreSize :: "int option"
  nfsexport_Error :: "VolumeNfsExportError option"

record VolumeNfsExport =
  nfsexport_ObjectMeta :: ObjectMeta
  nfsexport_Spec :: VolumeNfsExportSpec
  nfsexport_Status :: "VolumeNfsExportStatus option"

record VolumeNfsExportClass =
  class_ObjectMeta :: ObjectMeta
  class_Driver :: string
  class_Parameters :: gomap
  class_DeletionPolicy :: string

definition VolumeNfsExportContentDelete :: string where
  "VolumeNfsExportContentDelete = ''Delete''"

definition VolumeNfsExportContentRetain :: string where
  "VolumeNfsExportContentRetain = ''Retain''"

subsection \<open>Constants of package utils\<close>

definition VolumeNfsExportContentFinalizer :: string where
  "VolumeNfsExportContentFinalizer =
     ''nfsexport.storage.kubernetes.io/volumenfsexportcontent-bound-protection''"

definition IsDefaultNfsExportClassAnnotation :: string where
  "IsDefaultNfsExportClassAnnotation = ''nfsexport.storage.kubernetes.io/is-default-class''"

definition AnnVolumeNfsExportBeingDeleted :: string where
  "AnnVolumeNfsExportBeingDeleted =
     ''nfsexport.storage.kubernetes.io/volumenfsexport-being-deleted''"

definition AnnVolumeNfsExportBeingCreated :: string where
  "AnnVolumeNfsExportBeingCreated =
     ''nfsexport.storage.kubernetes.io/volumenfsexport-being-created''"

definition AnnDeletionSecretRefName :: string where
  "AnnDeletionSecretRefName = ''nfsexport.storage.kubernetes.io/deletion-secret-name''"

definition AnnDeletionSecretRefNamespace :: string where
  "AnnDeletionSecretRefNamespace =
     ''nfsexport.storage.kubernetes.io/deletion-secret-namespace''"

definition VolumeNfsExportContentManagedByLabel :: string where
  "VolumeNfsExportContentManagedByLabel = ''nfsexport.storage.kubernetes.io/managed-by''"

text \<open>\<^verbatim>\<open>metav1.HasAnnotation\<close>: the key is present in the annotation map.\<close>

definition HasAnnotation :: "ObjectMeta \<Rightarrow> string \<Rightarrow> bool" where
  "HasAnnotation obj ann = (Annotations obj ann \<noteq> None)"

text \<open>Reading a Go map yields the zero value, the empty string, for a missing key.\<close>

definition map_index :: "gomap \<Rightarrow> string \<Rightarrow> string" where
  "map_index m k = (case m k of None \<Rightarrow> [] | Some v \<Rightarrow> v)"



section \<open>Driver adapter (package nfsexporter)\<close>

text \<open>
  The driver behind the gRPC connection: its name and its answer to a create request
  (name, source volume, parameters, secrets), which is an error or the created export.
\<close>

record csi_NfsExport =
  NfsExportId :: string
  SizeBytes :: int
  csi_CreationTime :: Time
  csi_ReadyToUse :: bool

record ClientConn =
  GetDriverName :: "go_error + string"
  ControllerCreateNfsExport :: "string \<Rightarrow> string \<Rightarrow> gomap \<Rightarrow> gomap \<Rightarrow> go_error + csi_NfsExport"

record nfsexport =
  conn :: ClientConn

definition zeroTime :: Time where
  "zeroTime = 0"

text \<open>
  \<^verbatim>\<open>(*nfsexport).CreateNfsExport\<close>.  Every statement of the body that talks to the
  driver is commented out in the source; what is left is the final \<^verbatim>\<open>return\<close>.
\<close>

definition CreateNfsExport ::
  "nfsexport \<Rightarrow> string \<Rightarrow> string \<Rightarrow> gomap \<Rightarrow> gomap
     \<Rightarrow> string \<times> string \<times> Time \<times> int \<times> bool \<times> error" where
  "CreateNfsExport s nfsexportName volumeHandle parameters nfsexporterCredentials =
     ([], [], zeroTime, 0, True, None)"

text \<open>\<^verbatim>\<open>(*nfsexport).DeleteNfsExport\<close>: the request is commented out as well.\<close>

definition DeleteNfsExport :: "nfsexport \<Rightarrow> string \<Rightarrow> gomap \<Rightarrow> error" where
  "DeleteNfsExport s nfsexportID nfsexporterCredentials = None"

section \<open>Error classification (sidecar controller)\<close>

text \<open>
  \<^verbatim>\<open>status.FromError\<close> of the gRPC library, by its contract: the nil error gives a nil
  status and \<^verbatim>\<open>ok = true\<close>; an error that carries a status gives that status; any
  other error gives a status of code \<^verbatim>\<open>Unknown\<close> and \<^verbatim>\<open>ok = false\<close> (the
  message of that status, the text of the error, is never read and is left empty).
  \<^verbatim>\<open>(*Status).Code\<close> of a nil status is \<^verbatim>\<open>OK\<close>.
\<close>

fun FromError :: "error \<Rightarrow> grpc_Status option \<times> bool" where
  "FromError None = (None, True)"
| "FromError (Some (StatusError c m)) = (Some \<lparr>status_code = c, status_message = m\<rparr>, True)"
| "FromError (Some e) = (Some \<lparr>status_code = Unknown, status_message = []\<rparr>, False)"

fun status_Code :: "grpc_Status option \<Rightarrow> Code" where
  "status_Code None = OK"
| "status_Code (Some st) = status_code st"

definition isCSIFinalError :: "error \<Rightarrow> bool" where
  "isCSIFinalError err =
     (case FromError err of (st, ok) \<Rightarrow>
        if \<not> ok then False
        else if status_Code st \<in> set [Canceled, DeadlineExceeded, Unavailable,
                                        ResourceExhausted, Aborted]
          then False
        else True)"

section \<open>Deletion predicate (sidecar controller)\<close>

definition shouldDelete :: "VolumeNfsExportContent \<Rightarrow> bool" where
  "shouldDelete content =
     (if DeletionTimestamp (content_ObjectMeta content) = None then False
      else if NfsExportHandle (Source (content_Spec content)) \<noteq> None
              \<and> ref_UID (VolumeNfsExportRef (content_Spec content)) = []
        then True
      else if HasAnnotation (content_ObjectMeta content) AnnVolumeNfsExportBeingCreated
        then False
      else if HasAnnotation (content_ObjectMeta content) AnnVolumeNfsExportBeingDeleted
        then True
      else False)"

section \<open>Export name (handler)\<close>

text \<open>
  \<^verbatim>\<open>strings.Replace(s, "-", "", -1)\<close> deletes every dash.  The slice expression
  \<^verbatim>\<open>s[0:n]\<close> panics unless \<^verbatim>\<open>0 <= n <= len(s)\<close>.
\<close>

definition remove_dashes :: "string \<Rightarrow> string" where
  "remove_dashes s = filter (\<lambda>c. c \<noteq> CHR ''-'') s"

definition slice_to :: "string \<Rightarrow> int \<Rightarrow> string outcome" where
  "slice_to s n =
     (if 0 \<le> n \<and> n \<le> int (length s) then Return (take (nat n) s)
      else Panic ''slice bounds out of range'')"

definition makeNfsExportName :: "string \<Rightarrow> string \<Rightarrow> int \<Rightarrow> (go_error + string) outcome" where
  "makeNfsExportName prefix nfsexportUID nfsexportNameUUIDLength =
     (if length nfsexportUID = 0
        then Return (Inl (Errorf ''Corrupted nfsexport object, it is missing UID'' []))
      else if nfsexportNameUUIDLength = - 1
        then Return (Inr (prefix @ ''-'' @ nfsexportUID))
      else (case slice_to (remove_dashes nfsexportUID) nfsexportNameUUIDLength of
              Panic p \<Rightarrow> Panic p
            | Return t \<Rightarrow> Return (Inr (prefix @ ''-'' @ t))))"

section \<open>Content name of a dynamically provisioned export (package utils)\<close>

definition GetDynamicNfsExportContentNameForNfsExport :: "VolumeNfsExport \<Rightarrow> string" where
  "GetDynamicNfsExportContentNameForNfsExport nfsexport =
     ''snapcontent-'' @ UID (nfsexport_ObjectMeta nfsexport)"

text \<open>\<^verbatim>\<open>utils.NfsExportKey\<close>.\<close>

definition NfsExportKey :: "VolumeNfsExport \<Rightarrow> string" where
  "NfsExportKey vs =
     Namespace (nfsexport_ObjectMeta vs) @ ''/'' @ Name (nfsexport_ObjectMeta vs)"

definition IsVolumeNfsExportRefSet :: "VolumeNfsExport \<Rightarrow> VolumeNfsExportContent \<Rightarrow> bool" where
  "IsVolumeNfsExportRefSet nfsexport content =
     (if ref_Name (VolumeNfsExportRef (content_Spec content)) = Name (nfsexport_ObjectMeta nfsexport)
         \<and> ref_Namespace (VolumeNfsExportRef (content_Spec content))
             = Namespace (nfsexport_ObjectMeta nfsexport)
         \<and> ref_UID (VolumeNfsExportRef (content_Spec content)) = UID (nfsexport_ObjectMeta nfsexport)
      then True else False)"

section \<open>Common controller: where the content name is used\<close>

text \<open>
  The controller's content cache maps a key (the name of the cluster-scoped object) to the
  cached object; \<^verbatim>\<open>GetByKey\<close> of that cache has no failing case and every cached
  object is a content, so \<^verbatim>\<open>getContentFromStore\<close> is the lookup.
\<close>

type_synonym contentStore = "string \<rightharpoonup> VolumeNfsExportContent"

definition getContentFromStore ::
  "contentStore \<Rightarrow> string \<Rightarrow> go_error + VolumeNfsExportContent option" where
  "getContentFromStore store contentName =
     (case store contentName of None \<Rightarrow> Inr None | Some content \<Rightarrow> Inr (Some content))"

text \<open>
  \<^verbatim>\<open>getDynamicallyProvisionedContentFromStore\<close>.  Before it returns one of its two
  errors the source also records the error on the status of the export and emits an
  event; the value returned is what is modelled.
\<close>

definition getDynamicallyProvisionedContentFromStore ::
  "contentStore \<Rightarrow> VolumeNfsExport \<Rightarrow> go_error + VolumeNfsExportContent option" where
  "getDynamicallyProvisionedContentFromStore store nfsexport =
     (let contentName = GetDynamicNfsExportContentNameForNfsExport nfsexport in
      case getContentFromStore store contentName of
        Inl err \<Rightarrow> Inl err
      | Inr None \<Rightarrow> Inr None
      | Inr (Some content) \<Rightarrow>
          if VolumeHandle (Source (content_Spec content)) = None
            then Inl (Errorf ''nfsexport %s expects a dynamically provisioned VolumeNfsExportContent %s but gets a pre-provisioned one''
                        [Inl (NfsExportKey nfsexport), Inl contentName])
          else if ref_Name (VolumeNfsExportRef (content_Spec content)) \<noteq> Name (nfsexport_ObjectMeta nfsexport)
                \<or> ref_Namespace (VolumeNfsExportRef (content_Spec content))
                    \<noteq> Namespace (nfsexport_ObjectMeta nfsexport)
                \<or> ref_UID (VolumeNfsExportRef (content_Spec content)) \<noteq> UID (nfsexport_ObjectMeta nfsexport)
            then Inl (Errorf ''VolumeNfsExportContent [%s] is bound to a different nfsexport''
                        [Inl contentName])
          else Inr (Some content))"

text \<open>
  The first half of \<^verbatim>\<open>processNfsExportWithDeletionTimestamp\<close>: the name under which
  the content of an export that is being deleted is searched, and the content and the
  decision handed to the removal of the finalizers.  (The start of the delete metric,
  which precedes it in the source, does not touch these values.)
\<close>

definition deletionContentName :: "VolumeNfsExport \<Rightarrow> string" where
  "deletionContentName nfsexport =
     (let contentName =
            (case nfsexport_Status nfsexport of
               None \<Rightarrow> []
             | Some st \<Rightarrow> (case BoundVolumeNfsExportContentName st of None \<Rightarrow> [] | Some n \<Rightarrow> n))
      in if contentName = [] \<and> PersistentVolumeClaimName (nfsexport_Source (nfsexport_Spec nfsexport)) \<noteq> None
           then GetDynamicNfsExportContentNameForNfsExport nfsexport
         else contentName)"

definition processNfsExportWithDeletionTimestamp ::
  "contentStore \<Rightarrow> VolumeNfsExport \<Rightarrow> go_error + (VolumeNfsExportContent option \<times> bool)" where
  "processNfsExportWithDeletionTimestamp store nfsexport =
     (case getContentFromStore store (deletionContentName nfsexport) of
        Inl err \<Rightarrow> Inl err
      | Inr content \<Rightarrow>
          (case content of
             Some c \<Rightarrow>
               if IsVolumeNfsExportRefSet nfsexport c
                 then Inr (Some c, DeletionPolicy (content_Spec c) = VolumeNfsExportContentDelete)
               else Inr (None, False)
           | None \<Rightarrow> Inr (None, False)))"

text \<open>
  The persistent volume of the source claim, as far as the controller reads it, and a
  reference to a secret.
\<close>

record CSIPersistentVolumeSource =
  csi_Driver :: string
  csi_VolumeHandle :: string

record PersistentVolume =
  pv_Name :: string
  pv_CSI :: "CSIPersistentVolumeSource option"
  pv_VolumeMode :: "string option"

record SecretReference =
  secret_Name :: string
  secret_Namespace :: string

text \<open>
  What \<^verbatim>\<open>getCreateNfsExportInput\<close> and \<^verbatim>\<open>createNfsExportContent\<close> obtain from
  the other objects of the cluster: the class lister, the volume bound to the source
  claim, the resolution of the secret template, the addition of the finalizer to the
  claim, the node of a local volume, and the two flags of the controller.
\<close>

record commonController =
  getNfsExportClass :: "string \<Rightarrow> go_error + VolumeNfsExportClass"
  getVolumeFromVolumeNfsExport :: "VolumeNfsExport \<Rightarrow> go_error + PersistentVolume"
  GetSecretReference :: "gomap \<Rightarrow> string \<Rightarrow> VolumeNfsExport \<Rightarrow> go_error + SecretReference option"
  ensurePVCFinalizer :: "VolumeNfsExport \<Rightarrow> error"
  getManagedByNode :: "PersistentVolume \<Rightarrow> go_error + string"
  enableDistributedNfsExportting :: bool
  preventVolumeModeConversion :: bool

definition getCreateNfsExportInput ::
  "commonController \<Rightarrow> VolumeNfsExport
     \<Rightarrow> go_error + (VolumeNfsExportClass \<times> PersistentVolume \<times> string \<times> SecretReference option)" where
  "getCreateNfsExportInput ctrl nfsexport =
     (case nfsexport_ClassName (nfsexport_Spec nfsexport) of
        None \<Rightarrow> Inl (Errorf ''failed to take nfsexport %s without a nfsexport class''
                       [Inl (Name (nfsexport_ObjectMeta nfsexport))])
      | Some className \<Rightarrow>
          (case getNfsExportClass ctrl className of
             Inl err \<Rightarrow> Inl err
           | Inr class \<Rightarrow>
               (case getVolumeFromVolumeNfsExport ctrl nfsexport of
                  Inl err \<Rightarrow> Inl err
                | Inr volume \<Rightarrow>
                    (let contentName = GetDynamicNfsExportContentNameForNfsExport nfsexport in
                     case GetSecretReference ctrl (class_Parameters class) contentName nfsexport of
                       Inl err \<Rightarrow> Inl err
                     | Inr nfsexporterSecretRef \<Rightarrow>
                         Inr (class, volume, contentName, nfsexporterSecretRef)))))"

text \<open>
  \<^verbatim>\<open>createNfsExportContent\<close> up to the object it submits to the API server with
  \<^verbatim>\<open>Create\<close>.  \<^verbatim>\<open>ref.GetReference\<close> yields the name, namespace and UID of the
  export.
\<close>

definition SetMetaDataAnnotation :: "ObjectMeta \<Rightarrow> string \<Rightarrow> string \<Rightarrow> ObjectMeta" where
  "SetMetaDataAnnotation obj ann v = obj\<lparr>Annotations := (Annotations obj)(ann \<mapsto> v)\<rparr>"

definition emptyObjectMeta :: ObjectMeta where
  "emptyObjectMeta =
     \<lparr>Name = [], Namespace = [], UID = [], ResourceVersion = [], DeletionTimestamp = None,
      Annotations = Map.empty, Labels = Map.empty, Finalizers = []\<rparr>"

definition createNfsExportContent ::
  "commonController \<Rightarrow> VolumeNfsExport \<Rightarrow> go_error + VolumeNfsExportContent" where
  "createNfsExportContent ctrl nfsexport =
     (case ensurePVCFinalizer ctrl nfsexport of
        Some err \<Rightarrow> Inl err
      | None \<Rightarrow>
     (case getCreateNfsExportInput ctrl nfsexport of
        Inl err \<Rightarrow> Inl (Errorf ''failed to get input parameters to create nfsexport %s: %q''
                          [Inl (Name (nfsexport_ObjectMeta nfsexport)), Inr err])
      | Inr (class, volume, contentName, nfsexporterSecretRef) \<Rightarrow>
     (case pv_CSI volume of
        None \<Rightarrow> Inl (Errorf ''cannot find CSI PersistentVolumeSource for volume %s''
                       [Inl (pv_Name volume)])
      | Some csi \<Rightarrow>
     (let nfsexportRef = \<lparr>ref_Name = Name (nfsexport_ObjectMeta nfsexport),
                           ref_Namespace = Namespace (nfsexport_ObjectMeta nfsexport),
                           ref_UID = UID (nfsexport_ObjectMeta nfsexport)\<rparr>;
          nfsexportContent =
            \<lparr>content_ObjectMeta = emptyObjectMeta\<lparr>Name := contentName\<rparr>,
             content_Spec =
               \<lparr>VolumeNfsExportRef = nfsexportRef,
                DeletionPolicy = class_DeletionPolicy class,
                Driver = class_Driver class,
                VolumeNfsExportClassName = Some (Name (class_ObjectMeta class)),
                Source = \<lparr>VolumeHandle = Some (csi_VolumeHandle csi), NfsExportHandle = None\<rparr>,
                SourceVolumeMode = None\<rparr>,
             content_Status = None\<rparr>
      in
      (case (if enableDistributedNfsExportting ctrl
               then (case getManagedByNode ctrl volume of
                       Inl err \<Rightarrow> Inl err
                     | Inr nodeName \<Rightarrow>
                         if nodeName \<noteq> []
                           then Inr (nfsexportContent\<lparr>content_ObjectMeta :=
                                  (content_ObjectMeta nfsexportContent)
                                    \<lparr>Labels := [VolumeNfsExportContentManagedByLabel \<mapsto> nodeName]\<rparr>\<rparr>)
                         else Inr nfsexportContent)
             else Inr nfsexportContent) of
         Inl err \<Rightarrow> Inl err
       | Inr c1 \<Rightarrow>
           (let c2 = (if preventVolumeModeConversion ctrl \<and> pv_VolumeMode volume \<noteq> None
                        then c1\<lparr>content_Spec := (content_Spec c1)\<lparr>SourceVolumeMode := pv_VolumeMode volume\<rparr>\<rparr>
                      else c1);
                c3 = (case nfsexporterSecretRef of
                        None \<Rightarrow> c2
                      | Some r \<Rightarrow>
                          c2\<lparr>content_ObjectMeta :=
                               SetMetaDataAnnotation
                                 (SetMetaDataAnnotation (content_ObjectMeta c2)
                                    AnnDeletionSecretRefName (secret_Name r))
                                 AnnDeletionSecretRefNamespace (secret_Namespace r)\<rparr>)
            in Inr c3))))))"

section \<open>Admission validator (package webhook)\<close>

text \<open>
  The errors of this package are turned into the message of the response with
  \<^verbatim>\<open>err.Error()\<close>; their formats use \<^verbatim>\<open>%s\<close> and \<^verbatim>\<open>%v\<close> on strings only, so
  an error is given by its text here (\<^term>\<open>None\<close> is the nil error).  The error of the
  class lister is given by its text too.
\<close>

record AdmissionResponse =
  Allowed :: bool
  Result_Message :: string

definition reviewResponse0 :: AdmissionResponse where
  "reviewResponse0 = \<lparr>Allowed = True, Result_Message = []\<rparr>"

fun defaultClassLoop :: "VolumeNfsExportClass list \<Rightarrow> VolumeNfsExportClass \<Rightarrow> AdmissionResponse" where
  "defaultClassLoop [] snapClass = reviewResponse0"
| "defaultClassLoop (nfsexportClass # ret) snapClass =
     (if map_index (Annotations (class_ObjectMeta nfsexportClass)) IsDefaultNfsExportClassAnnotation
           \<noteq> ''true''
        then defaultClassLoop ret snapClass
      else if class_Driver nfsexportClass = class_Driver snapClass
        then \<lparr>Allowed = False,
              Result_Message = ''default nfsexport class: '' @ Name (class_ObjectMeta nfsexportClass)
                 @ '' already exits for driver: '' @ class_Driver snapClass\<rparr>
      else defaultClassLoop ret snapClass)"

definition decideNfsExportClassV1 ::
  "VolumeNfsExportClass \<Rightarrow> VolumeNfsExportClass \<Rightarrow> (string + VolumeNfsExportClass list)
     \<Rightarrow> AdmissionResponse" where
  "decideNfsExportClassV1 snapClass oldSnapClass lister_List =
     (if map_index (Annotations (class_ObjectMeta snapClass)) IsDefaultNfsExportClassAnnotation
           \<noteq> ''true''
        then reviewResponse0
      else if map_index (Annotations (class_ObjectMeta oldSnapClass)) IsDefaultNfsExportClassAnnotation
                = ''true''
              \<and> class_Driver oldSnapClass = class_Driver snapClass
        then reviewResponse0
      else (case lister_List of
              Inl err \<Rightarrow> \<lparr>Allowed = False, Result_Message = err\<rparr>
            | Inr ret \<Rightarrow> defaultClassLoop ret snapClass))"

definition strPtrDereference :: "string option \<Rightarrow> string" where
  "strPtrDereference s = (case s of None \<Rightarrow> ''<nil string pointer>'' | Some v \<Rightarrow> v)"

text \<open>
  The arguments of \<^verbatim>\<open>fmt.Errorf\<close> are evaluated before the call, so the two
  dereferences \<^verbatim>\<open>*oldSnapcontent.Spec.SourceVolumeMode\<close> and
  \<^verbatim>\<open>*snapcontent.Spec.SourceVolumeMode\<close> happen, in this order, whenever the two
  pointers are not deeply equal; dereferencing nil panics.  The flag
  \<^verbatim>\<open>preventVolumeModeConversion\<close> is a variable of the package set at start-up, and
  is a parameter here.  \<^verbatim>\<open>reflect.DeepEqual\<close> on two pointers to strings is equality
  of the two options.
\<close>

definition nilDereference :: string where
  "nilDereference = ''invalid memory address or nil pointer dereference''"

definition checkNfsExportContentImmutableFieldsV1 ::
  "bool \<Rightarrow> VolumeNfsExportContent option \<Rightarrow> VolumeNfsExportContent option
     \<Rightarrow> string option outcome" where
  "checkNfsExportContentImmutableFieldsV1 preventConversion snapcontent oldSnapcontent =
     (case snapcontent of
        None \<Rightarrow> Return (Some ''VolumeNfsExportContent is nil'')
      | Some new \<Rightarrow>
     (case oldSnapcontent of
        None \<Rightarrow> Return (Some ''old VolumeNfsExportContent is nil'')
      | Some old \<Rightarrow>
     (let source = Source (content_Spec new); oldSource = Source (content_Spec old) in
      if VolumeHandle source \<noteq> VolumeHandle oldSource
        then Return (Some (''Spec.Source.VolumeHandle is immutable but was changed from ''
                @ strPtrDereference (VolumeHandle oldSource) @ '' to ''
                @ strPtrDereference (VolumeHandle source)))
      else if NfsExportHandle source \<noteq> NfsExportHandle oldSource
        then Return (Some (''Spec.Source.NfsExportHandle is immutable but was changed from ''
                @ strPtrDereference (NfsExportHandle oldSource) @ '' to ''
                @ strPtrDereference (NfsExportHandle source)))
      else if preventConversion
              \<and> SourceVolumeMode (content_Spec new) \<noteq> SourceVolumeMode (content_Spec old)
        then (case SourceVolumeMode (content_Spec old) of
                None \<Rightarrow> Panic nilDereference
              | Some oldMode \<Rightarrow>
                  (case SourceVolumeMode (content_Spec new) of
                     None \<Rightarrow> Panic nilDereference
                   | Some newMode \<Rightarrow>
                       Return (Some (''Spec.SourceVolumeMode is immutable but was changed from ''
                         @ oldMode @ '' to '' @ newMode))))
      else Return None)))"

definition ValidateV1NfsExportContent :: "VolumeNfsExportContent option \<Rightarrow> string option" where
  "ValidateV1NfsExportContent snapcontent =
     (case snapcontent of
        None \<Rightarrow> Some ''VolumeNfsExportContent is nil''
      | Some c \<Rightarrow>
          (let vsref = VolumeNfsExportRef (content_Spec c) in
           if ref_Name vsref = [] \<or> ref_Namespace vsref = []
             then Some (''both Spec.VolumeNfsExportRef.Name = '' @ ref_Name vsref
                    @ '' and Spec.VolumeNfsExportRef.Namespace = '' @ ref_Namespace vsref
                    @ '' must be set'')
           else None))"

definition decideNfsExportContentV1 ::
  "bool \<Rightarrow> VolumeNfsExportContent option \<Rightarrow> VolumeNfsExportContent option \<Rightarrow> bool
     \<Rightarrow> AdmissionResponse outcome" where
  "decideNfsExportContentV1 preventConversion snapcontent oldSnapcontent isUpdate =
     (case (if isUpdate
              then checkNfsExportContentImmutableFieldsV1 preventConversion snapcontent oldSnapcontent
            else Return None) of
        Panic p \<Rightarrow> Panic p
      | Return (Some err) \<Rightarrow> Return \<lparr>Allowed = False, Result_Message = err\<rparr>
      | Return None \<Rightarrow>
          (case ValidateV1NfsExportContent snapcontent of
             Some err \<Rightarrow> Return \<lparr>Allowed = False, Result_Message = err\<rparr>
           | None \<Rightarrow> Return reviewResponse0))"

section \<open>Controller cache (package utils)\<close>

text \<open>
  \<^verbatim>\<open>strconv.ParseInt(s, 10, 64)\<close> by its contract: an optional sign, then one or more
  decimal digits; the value must fit into 64 bits.  The result is the error or the value.
\<close>

definition digit_value :: "char \<Rightarrow> nat option" where
  "digit_value c =
     (if 48 \<le> (of_char c :: nat) \<and> (of_char c :: nat) \<le> 57 then Some (of_char c - 48) else None)"

fun parse_digits :: "nat \<Rightarrow> string \<Rightarrow> nat option" where
  "parse_digits acc [] = Some acc"
| "parse_digits acc (c # cs) =
     (case digit_value c of None \<Rightarrow> None | Some d \<Rightarrow> parse_digits (acc * 10 + d) cs)"

definition ParseInt :: "string \<Rightarrow> go_error + int" where
  "ParseInt s =
     (case s of
        [] \<Rightarrow> Inl (Errorf ''strconv.ParseInt: parsing %q: invalid syntax'' [Inl s])
      | c # cs \<Rightarrow>
          (let neg = (c = CHR ''-'');
               ds = (if c = CHR ''+'' \<or> c = CHR ''-'' then cs else s)
           in if ds = [] then Inl (Errorf ''strconv.ParseInt: parsing %q: invalid syntax'' [Inl s])
              else (case parse_digits 0 ds of
                      None \<Rightarrow> Inl (Errorf ''strconv.ParseInt: parsing %q: invalid syntax'' [Inl s])
                    | Some un \<Rightarrow>
                        if \<not> neg \<and> un \<ge> 2 ^ 63
                          then Inl (Errorf ''strconv.ParseInt: parsing %q: value out of range'' [Inl s])
                        else if neg \<and> un > 2 ^ 63
                          then Inl (Errorf ''strconv.ParseInt: parsing %q: value out of range'' [Inl s])
                        else Inr (if neg then - int un else int un))))"

text \<open>
  The cache is keyed by \<^verbatim>\<open>keyFunc\<close>, that is namespace/name, or the name alone for an
  object without namespace.  The objects offered to it are API objects, for which neither
  the key function nor \<^verbatim>\<open>meta.Accessor\<close> fails, and \<^verbatim>\<open>Add\<close>, \<^verbatim>\<open>Update\<close> and
  \<^verbatim>\<open>Get\<close> of the store fail only when the key function does; these error branches
  are therefore absent.  The function is generic in the kind of object; \<open>meta\<close> reads its
  metadata.
\<close>

definition keyFunc :: "ObjectMeta \<Rightarrow> string" where
  "keyFunc m = (if Namespace m \<noteq> [] then Namespace m @ ''/'' @ Name m else Name m)"

definition StoreObjectUpdate ::
  "('obj \<Rightarrow> ObjectMeta) \<Rightarrow> (string \<rightharpoonup> 'obj) \<Rightarrow> 'obj \<Rightarrow> string
     \<Rightarrow> (string \<rightharpoonup> 'obj) \<times> bool \<times> error" where
  "StoreObjectUpdate meta store obj className =
     (let objName = keyFunc (meta obj) in
      case store objName of
        None \<Rightarrow> (store(objName \<mapsto> obj), True, None)
      | Some oldObj \<Rightarrow>
          (case ParseInt (ResourceVersion (meta obj)) of
             Inl err \<Rightarrow>
               (store, False,
                Some (Errorf ''error parsing ResourceVersion %q of %s %q: %s''
                        [Inl (ResourceVersion (meta obj)), Inl className, Inl objName, Inr err]))
           | Inr objResourceVersion \<Rightarrow>
               (case ParseInt (ResourceVersion (meta oldObj)) of
                  Inl err \<Rightarrow>
                    (store, False,
                     Some (Errorf ''error parsing old ResourceVersion %q of %s %q: %s''
                             [Inl (ResourceVersion (meta oldObj)), Inl className, Inl objName,
                              Inr err]))
                | Inr oldObjResourceVersion \<Rightarrow>
                    if oldObjResourceVersion > objResourceVersion
                      then (store, False, None)
                    else (store(objName \<mapsto> obj), True, None))))"

section \<open>Metrics (package metrics)\<close>

definition unknownDriverName :: string where "unknownDriverName = ''unknown''"
definition CreateNfsExportOperationName :: string where
  "CreateNfsExportOperationName = ''CreateNfsExport''"
definition CreateNfsExportAndReadyOperationName :: string where
  "CreateNfsExportAndReadyOperationName = ''CreateNfsExportAndReady''"
definition DeleteNfsExportOperationName :: string where
  "DeleteNfsExportOperationName = ''DeleteNfsExport''"
definition NfsExportStatusTypeUnknown :: string where "NfsExportStatusTypeUnknown = ''unknown''"
definition NfsExportStatusTypeSuccess :: string where "NfsExportStatusTypeSuccess = ''success''"
definition NfsExportStatusTypeCancel :: string where "NfsExportStatusTypeCancel = ''cancel''"

record OperationKey =
  op_Name :: string
  ResourceID :: string

record OperationValue =
  op_Driver :: string
  NfsExportType :: string
  startTime :: Time

text \<open>
  One observation of the latency histogram: the four label values and the observed
  duration.  The duration is \<^verbatim>\<open>time.Since(startTime)\<close>, kept in nanoseconds (the
  conversion to seconds as a floating point number is not modelled); the clock reading
  \<open>now\<close> is a parameter.  The histogram is the list of its observations, oldest first,
  and the gauge holds the number it was last set to.
\<close>

record observation =
  obs_driver :: string
  obs_operation :: string
  obs_type :: string
  obs_status :: string
  obs_duration :: int

record operationMetricsManager =
  cache :: "OperationKey \<rightharpoonup> OperationValue"
  opLatencyMetrics :: "observation list"
  opInFlight :: nat

definition NewOperationKey :: "string \<Rightarrow> string \<Rightarrow> OperationKey" where
  "NewOperationKey name nfsexportUID = \<lparr>op_Name = name, ResourceID = nfsexportUID\<rparr>"

definition recordCancelMetricLocked ::
  "operationMetricsManager \<Rightarrow> OperationValue \<Rightarrow> OperationKey \<Rightarrow> int \<Rightarrow> operationMetricsManager" where
  "recordCancelMetricLocked opMgr val key duration =
     opMgr\<lparr>opLatencyMetrics := opLatencyMetrics opMgr @
              [\<lparr>obs_driver = op_Driver val, obs_operation = op_Name key,
                obs_type = NfsExportType val, obs_status = NfsExportStatusTypeCancel,
                obs_duration = duration\<rparr>],
            cache := (cache opMgr)(key := None)\<rparr>"

definition RecordMetrics ::
  "operationMetricsManager \<Rightarrow> Time \<Rightarrow> OperationKey \<Rightarrow> string option \<Rightarrow> string
     \<Rightarrow> operationMetricsManager" where
  "RecordMetrics opMgr now opKey opStatus driverName0 =
     (case cache opMgr opKey of
        None \<Rightarrow> opMgr
      | Some opVal \<Rightarrow>
          (let status = (case opStatus of None \<Rightarrow> NfsExportStatusTypeUnknown | Some s \<Rightarrow> s);
               driverName = (if driverName0 = [] \<or> driverName0 = unknownDriverName
                             then op_Driver opVal else driverName0);
               operationDuration = now - startTime opVal;
               m1 = opMgr\<lparr>opLatencyMetrics := opLatencyMetrics opMgr @
                      [\<lparr>obs_driver = driverName, obs_operation = op_Name opKey,
                        obs_type = NfsExportType opVal, obs_status = status,
                        obs_duration = operationDuration\<rparr>]\<rparr>;
               m2 = (if op_Name opKey = DeleteNfsExportOperationName
                       then (let createKey = NewOperationKey CreateNfsExportOperationName
                                               (ResourceID opKey);
                                 ma = (case cache m1 createKey of
                                         Some obj \<Rightarrow>
                                           recordCancelMetricLocked m1 obj createKey operationDuration
                                       | None \<Rightarrow> m1);
                                 createAndReadyKey =
                                   NewOperationKey CreateNfsExportAndReadyOperationName
                                     (ResourceID opKey);
                                 mb = (case cache ma createAndReadyKey of
                                         Some obj \<Rightarrow>
                                           recordCancelMetricLocked ma obj createAndReadyKey
                                             operationDuration
                                       | None \<Rightarrow> ma)
                             in mb)
                     else m1);
               m3 = m2\<lparr>cache := (cache m2)(opKey := None)\<rparr>
           in m3\<lparr>opInFlight := card (dom (cache m3))\<rparr>))"

section \<open>Sidecar controller: one evaluation of syncContent\<close>
















section \<open>Concrete objects\<close>

text \<open>
  The objects at which the properties below are evaluated.  The driver of the first
  scenario of the specification answers every create request with the export \<open>e1\<close> of
  the default size, ready to use.
\<close>

definition defaultSize :: int where "defaultSize = 1000"

definition scenarioConn :: ClientConn where
  "scenarioConn =
     \<lparr>GetDriverName = Inr ''D'',
      ControllerCreateNfsExport = (\<lambda>name volume parameters secrets.
        Inr \<lparr>NfsExportId = ''e1'', SizeBytes = defaultSize, csi_CreationTime = 1,
             csi_ReadyToUse = True\<rparr>)\<rparr>"

definition exampleNfsExport :: VolumeNfsExport where
  "exampleNfsExport =
     \<lparr>nfsexport_ObjectMeta = emptyObjectMeta\<lparr>Name := ''snap1'', Namespace := ''default'', UID := ''u1''\<rparr>,
      nfsexport_Spec = \<lparr>nfsexport_Source = \<lparr>PersistentVolumeClaimName = Some ''claim1'',
                                             VolumeNfsExportContentName = None\<rparr>,
                        nfsexport_ClassName = Some ''gold''\<rparr>,
      nfsexport_Status = None\<rparr>"

definition exampleClass :: VolumeNfsExportClass where
  "exampleClass =
     \<lparr>class_ObjectMeta = emptyObjectMeta\<lparr>Name := ''gold''\<rparr>, class_Driver = ''D'',
      class_Parameters = Map.empty, class_DeletionPolicy = ''Delete''\<rparr>"

definition exampleCommonController :: commonController where
  "exampleCommonController =
     \<lparr>getNfsExportClass = (\<lambda>name. Inr exampleClass),
      getVolumeFromVolumeNfsExport = (\<lambda>n. Inr \<lparr>pv_Name = ''pv1'',
         pv_CSI = Some \<lparr>csi_Driver = ''D'', csi_VolumeHandle = ''v1''\<rparr>, pv_VolumeMode = None\<rparr>),
      GetSecretReference = (\<lambda>params contentName n. Inr None),
      ensurePVCFinalizer = (\<lambda>n. None),
      getManagedByNode = (\<lambda>pv. Inr []),
      enableDistributedNfsExportting = False,
      preventVolumeModeConversion = False\<rparr>"

definition exampleCreatedContent :: VolumeNfsExportContent where
  "exampleCreatedContent =
     \<lparr>content_ObjectMeta = emptyObjectMeta\<lparr>Name := ''snapcontent-u1''\<rparr>,
      content_Spec =
        \<lparr>VolumeNfsExportRef = \<lparr>ref_Name = ''snap1'', ref_Namespace = ''default'', ref_UID = ''u1''\<rparr>,
         DeletionPolicy = ''Delete'', Driver = ''D'', VolumeNfsExportClassName = Some ''gold'',
         Source = \<lparr>VolumeHandle = Some ''v1'', NfsExportHandle = None\<rparr>,
         SourceVolumeMode = None\<rparr>,
      content_Status = None\<rparr>"

text \<open>
  A content under deletion: dynamically provisioned and bound, with status, finalizer
  and the being-deleted annotation; the same with the being-created annotation added;
  and a pre-provisioned, unbound content that carries the being-created annotation.
\<close>

definition exampleStatus :: VolumeNfsExportContentStatus where
  "exampleStatus =
     \<lparr>status_NfsExportHandle = Some ''e1'', status_CreationTime = Some 1,
      status_RestoreSize = Some 1000, status_ReadyToUse = Some True,
      status_Error = Some \<lparr>Time = Some 2, Message = Some ''earlier failure''\<rparr>\<rparr>"

definition deletedContent :: VolumeNfsExportContent where
  "deletedContent =
     \<lparr>content_ObjectMeta =
        emptyObjectMeta\<lparr>Name := ''c1'', ResourceVersion := ''7'', DeletionTimestamp := Some 5,
          Annotations := [AnnVolumeNfsExportBeingDeleted \<mapsto> ''yes''],
          Finalizers := [VolumeNfsExportContentFinalizer]\<rparr>,
      content_Spec =
        \<lparr>VolumeNfsExportRef = \<lparr>ref_Name = ''snap1'', ref_Namespace = ''default'', ref_UID = ''u1''\<rparr>,
         DeletionPolicy = ''Delete'', Driver = ''D'', VolumeNfsExportClassName = None,
         Source = \<lparr>VolumeHandle = Some ''v1'', NfsExportHandle = None\<rparr>,
         SourceVolumeMode = None\<rparr>,
      content_Status = Some exampleStatus\<rparr>"

definition deletedContentBeingCreated :: VolumeNfsExportContent where
  "deletedContentBeingCreated =
     deletedContent\<lparr>content_ObjectMeta := (content_ObjectMeta deletedContent)
       \<lparr>Annotations := [AnnVolumeNfsExportBeingDeleted \<mapsto> ''yes'',
                        AnnVolumeNfsExportBeingCreated \<mapsto> ''yes'']\<rparr>\<rparr>"

definition unboundContentBeingCreated :: VolumeNfsExportContent where
  "unboundContentBeingCreated =
     \<lparr>content_ObjectMeta =
        emptyObjectMeta\<lparr>Name := ''c2'', DeletionTimestamp := Some 5,
          Annotations := [AnnVolumeNfsExportBeingCreated \<mapsto> ''yes'']\<rparr>,
      content_Spec =
        \<lparr>VolumeNfsExportRef = \<lparr>ref_Name = ''snap2'', ref_Namespace = ''default'', ref_UID = []\<rparr>,
         DeletionPolicy = ''Delete'', Driver = ''D'', VolumeNfsExportClassName = None,
         Source = \<lparr>VolumeHandle = None, NfsExportHandle = Some ''e2''\<rparr>,
         SourceVolumeMode = None\<rparr>,
      content_Status = None\<rparr>"

text \<open>
  A sidecar whose API server answers every \<^verbatim>\<open>Get\<close> with the content under deletion
  and accepts every write, returning the object at the resource version 8 after a status
  update and 9 after an update, and whose driver deletes successfully.  The cache of the
  controller holds the content under deletion.
\<close>

definition withResourceVersion :: "string \<Rightarrow> VolumeNfsExportContent \<Rightarrow> VolumeNfsExportContent" where
  "withResourceVersion rv c =
     c\<lparr>content_ObjectMeta := (content_ObjectMeta c)\<lparr>ResourceVersion := rv\<rparr>\<rparr>"



text \<open>
  The content under deletion with the four status fields cleared, as it is sent to the
  API server, and the same without its finalizer, at the resource version 8.
\<close>

definition clearedContent :: VolumeNfsExportContent where
  "clearedContent =
     deletedContent\<lparr>content_Status :=
       Some \<lparr>status_NfsExportHandle = None, status_CreationTime = None,
             status_RestoreSize = None, status_ReadyToUse = None,
             status_Error = Some \<lparr>Time = Some 2, Message = Some ''earlier failure''\<rparr>\<rparr>\<rparr>"


text \<open>Two classes of the same driver, the first one the default, and a class to admit.\<close>

definition defaultClassA :: VolumeNfsExportClass where
  "defaultClassA =
     \<lparr>class_ObjectMeta = emptyObjectMeta\<lparr>Name := ''a'',
        Annotations := [IsDefaultNfsExportClassAnnotation \<mapsto> ''true'']\<rparr>,
      class_Driver = ''D'', class_Parameters = Map.empty, class_DeletionPolicy = ''Delete''\<rparr>"

definition defaultClassB :: VolumeNfsExportClass where
  "defaultClassB =
     \<lparr>class_ObjectMeta = emptyObjectMeta\<lparr>Name := ''b'',
        Annotations := [IsDefaultNfsExportClassAnnotation \<mapsto> ''true'']\<rparr>,
      class_Driver = ''D'', class_Parameters = Map.empty, class_DeletionPolicy = ''Delete''\<rparr>"

definition plainClassB :: VolumeNfsExportClass where
  "plainClassB =
     \<lparr>class_ObjectMeta = emptyObjectMeta\<lparr>Name := ''b''\<rparr>,
      class_Driver = ''D'', class_Parameters = Map.empty, class_DeletionPolicy = ''Delete''\<rparr>"

text \<open>A metrics cache in which a delete and both creations of the export \<open>u1\<close> are pending.\<close>

definition exampleValue :: "Time \<Rightarrow> OperationValue" where
  "exampleValue t = \<lparr>op_Driver = ''D'', NfsExportType = ''dynamic'', startTime = t\<rparr>"

definition exampleMetrics :: operationMetricsManager where
  "exampleMetrics =
     \<lparr>cache = [NewOperationKey CreateNfsExportOperationName ''u1'' \<mapsto> exampleValue 10,
               NewOperationKey CreateNfsExportAndReadyOperationName ''u1'' \<mapsto> exampleValue 10,
               NewOperationKey DeleteNfsExportOperationName ''u1'' \<mapsto> exampleValue 40],
      opLatencyMetrics = [], opInFlight = 3\<rparr>"

text \<open>The created content with a source volume mode, for the immutability check.\<close>

definition contentWithMode :: VolumeNfsExportContent where
  "contentWithMode =
     exampleCreatedContent\<lparr>content_Spec :=
       (content_Spec exampleCreatedContent)\<lparr>SourceVolumeMode := Some ''Filesystem''\<rparr>\<rparr>"

section \<open>Properties\<close>

subsection \<open>Driver adapter\<close>

text \<open>
  Claim C1.  \<^verbatim>\<open>CreateExport\<close> of the driver adapter is to issue the create request
  to the driver and to return what the driver answered.  The code does neither: for the
  driver of the first scenario, which answers with the export \<open>e1\<close> of the default
  size, the adapter returns the empty export id and the size 0, as it does for every
  driver and every request.
\<close>

theorem CreateNfsExport_ignores_driver_reply:
  "ControllerCreateNfsExport scenarioConn ''nfsexport-u1'' ''v1'' Map.empty Map.empty
     = Inr \<lparr>NfsExportId = ''e1'', SizeBytes = defaultSize, csi_CreationTime = 1,
            csi_ReadyToUse = True\<rparr>
   \<and> CreateNfsExport \<lparr>conn = scenarioConn\<rparr> ''nfsexport-u1'' ''v1'' Map.empty Map.empty
     = ([], [], zeroTime, 0, True, None)"
  by (simp add: CreateNfsExport_def scenarioConn_def)

subsection \<open>Name of the content of a dynamically provisioned export\<close>

lemma createNfsExportContent_Name:
  assumes "createNfsExportContent ctrl nfsexport = Inr c"
  shows "Name (content_ObjectMeta c) = GetDynamicNfsExportContentNameForNfsExport nfsexport"
proof -
  from assms obtain cls volume contentName sref
    where inp: "getCreateNfsExportInput ctrl nfsexport = Inr (cls, volume, contentName, sref)"
    by (auto simp add: createNfsExportContent_def split: option.splits sum.splits)
  from inp have cn: "contentName = GetDynamicNfsExportContentNameForNfsExport nfsexport"
    by (auto simp add: getCreateNfsExportInput_def Let_def split: option.splits sum.splits)
  from assms inp show ?thesis
    unfolding cn
    by (auto simp add: createNfsExportContent_def Let_def SetMetaDataAnnotation_def
          split: option.splits sum.splits if_splits)
qed

lemma createNfsExportContent_example:
  "createNfsExportContent exampleCommonController exampleNfsExport = Inr exampleCreatedContent"
  by (simp add: createNfsExportContent_def getCreateNfsExportInput_def exampleCommonController_def
        exampleNfsExport_def exampleClass_def exampleCreatedContent_def emptyObjectMeta_def
        GetDynamicNfsExportContentNameForNfsExport_def)

text \<open>
  Claim C2, as the code has it.  The name of the content of a dynamically provisioned
  export is \<open>snapcontent-\<close> followed by the UID of the export (the prefix is not
  \<open>content-\<close>); the content that \<^verbatim>\<open>createNfsExportContent\<close> submits carries that name;
  the lookup of the dynamically provisioned content reads the cache at that name; and the
  deletion path of an export from a claim whose status names no bound content searches the
  cache at that same name.
\<close>

theorem content_name_deterministic:
  "GetDynamicNfsExportContentNameForNfsExport nfsexport
      = ''snapcontent-'' @ UID (nfsexport_ObjectMeta nfsexport)
   \<and> (\<forall>c. createNfsExportContent ctrl nfsexport = Inr c \<longrightarrow>
          Name (content_ObjectMeta c) = GetDynamicNfsExportContentNameForNfsExport nfsexport)
   \<and> (\<forall>c. getDynamicallyProvisionedContentFromStore store nfsexport = Inr (Some c) \<longrightarrow>
          store (GetDynamicNfsExportContentNameForNfsExport nfsexport) = Some c)
   \<and> ((nfsexport_Status nfsexport = None
          \<or> (\<exists>st. nfsexport_Status nfsexport = Some st
                   \<and> (BoundVolumeNfsExportContentName st = None
                        \<or> BoundVolumeNfsExportContentName st = Some [])))
        \<and> PersistentVolumeClaimName (nfsexport_Source (nfsexport_Spec nfsexport)) \<noteq> None
        \<longrightarrow> deletionContentName nfsexport = GetDynamicNfsExportContentNameForNfsExport nfsexport
            \<and> processNfsExportWithDeletionTimestamp store nfsexport
                = (case store (GetDynamicNfsExportContentNameForNfsExport nfsexport) of
                     None \<Rightarrow> Inr (None, False)
                   | Some c \<Rightarrow>
                       if IsVolumeNfsExportRefSet nfsexport c
                         then Inr (Some c, DeletionPolicy (content_Spec c) = VolumeNfsExportContentDelete)
                       else Inr (None, False)))"
proof (intro conjI allI impI)
  show "GetDynamicNfsExportContentNameForNfsExport nfsexport
          = ''snapcontent-'' @ UID (nfsexport_ObjectMeta nfsexport)"
    by (simp add: GetDynamicNfsExportContentNameForNfsExport_def)
next
  fix c assume "createNfsExportContent ctrl nfsexport = Inr c"
  then show "Name (content_ObjectMeta c) = GetDynamicNfsExportContentNameForNfsExport nfsexport"
    by (rule createNfsExportContent_Name)
next
  fix c assume "getDynamicallyProvisionedContentFromStore store nfsexport = Inr (Some c)"
  then show "store (GetDynamicNfsExportContentNameForNfsExport nfsexport) = Some c"
    by (auto simp add: getDynamicallyProvisionedContentFromStore_def getContentFromStore_def Let_def
          split: option.splits if_splits)
next
  assume a: "(nfsexport_Status nfsexport = None
          \<or> (\<exists>st. nfsexport_Status nfsexport = Some st
                   \<and> (BoundVolumeNfsExportContentName st = None
                        \<or> BoundVolumeNfsExportContentName st = Some [])))
        \<and> PersistentVolumeClaimName (nfsexport_Source (nfsexport_Spec nfsexport)) \<noteq> None"
  then show d: "deletionContentName nfsexport = GetDynamicNfsExportContentNameForNfsExport nfsexport"
    by (auto simp add: deletionContentName_def)
  show "processNfsExportWithDeletionTimestamp store nfsexport
                = (case store (GetDynamicNfsExportContentNameForNfsExport nfsexport) of
                     None \<Rightarrow> Inr (None, False)
                   | Some c \<Rightarrow>
                       if IsVolumeNfsExportRefSet nfsexport c
                         then Inr (Some c, DeletionPolicy (content_Spec c) = VolumeNfsExportContentDelete)
                       else Inr (None, False))"
    unfolding processNfsExportWithDeletionTimestamp_def d
    by (simp add: getContentFromStore_def split: option.splits)
qed

theorem content_name_deterministic_witness:
  "createNfsExportContent exampleCommonController exampleNfsExport = Inr exampleCreatedContent
   \<and> Name (content_ObjectMeta exampleCreatedContent) = ''snapcontent-u1''
   \<and> getDynamicallyProvisionedContentFromStore [''snapcontent-u1'' \<mapsto> exampleCreatedContent]
        exampleNfsExport = Inr (Some exampleCreatedContent)
   \<and> deletionContentName exampleNfsExport = ''snapcontent-u1''
   \<and> processNfsExportWithDeletionTimestamp [''snapcontent-u1'' \<mapsto> exampleCreatedContent]
        exampleNfsExport = Inr (Some exampleCreatedContent, True)"
proof -
  have n: "GetDynamicNfsExportContentNameForNfsExport exampleNfsExport = ''snapcontent-u1''"
    by (simp add: GetDynamicNfsExportContentNameForNfsExport_def exampleNfsExport_def
          emptyObjectMeta_def)
  have g: "getDynamicallyProvisionedContentFromStore [''snapcontent-u1'' \<mapsto> exampleCreatedContent]
        exampleNfsExport = Inr (Some exampleCreatedContent)"
    by (simp add: getDynamicallyProvisionedContentFromStore_def getContentFromStore_def n)
       (simp add: exampleCreatedContent_def exampleNfsExport_def emptyObjectMeta_def)
  have s: "nfsexport_Status exampleNfsExport = None"
          "PersistentVolumeClaimName (nfsexport_Source (nfsexport_Spec exampleNfsExport)) \<noteq> None"
    by (simp_all add: exampleNfsExport_def)
  have r: "IsVolumeNfsExportRefSet exampleNfsExport exampleCreatedContent"
    by (simp add: IsVolumeNfsExportRefSet_def exampleCreatedContent_def exampleNfsExport_def
          emptyObjectMeta_def)
  have p: "DeletionPolicy (content_Spec exampleCreatedContent) = VolumeNfsExportContentDelete"
    by (simp add: exampleCreatedContent_def VolumeNfsExportContentDelete_def)
  note T = content_name_deterministic
            [of exampleNfsExport exampleCommonController
                "[''snapcontent-u1'' \<mapsto> exampleCreatedContent]"]
  from T createNfsExportContent_example
  have t1: "Name (content_ObjectMeta exampleCreatedContent)
              = GetDynamicNfsExportContentNameForNfsExport exampleNfsExport"
    by blast
  from T s
  have t2: "deletionContentName exampleNfsExport
              = GetDynamicNfsExportContentNameForNfsExport exampleNfsExport"
    and t3: "processNfsExportWithDeletionTimestamp [''snapcontent-u1'' \<mapsto> exampleCreatedContent]
               exampleNfsExport
             = (case [''snapcontent-u1'' \<mapsto> exampleCreatedContent]
                       (GetDynamicNfsExportContentNameForNfsExport exampleNfsExport) of
                  None \<Rightarrow> Inr (None, False)
                | Some c \<Rightarrow>
                    if IsVolumeNfsExportRefSet exampleNfsExport c
                      then Inr (Some c, DeletionPolicy (content_Spec c) = VolumeNfsExportContentDelete)
                    else Inr (None, False))"
    by blast+
  show ?thesis
    using createNfsExportContent_example g t1 t2 t3 r p by (simp add: n)
qed

text \<open>The prefix of the name is not the one the claim gives.\<close>

theorem content_name_counterexample:
  "GetDynamicNfsExportContentNameForNfsExport exampleNfsExport
     \<noteq> ''content-'' @ UID (nfsexport_ObjectMeta exampleNfsExport)"
  by (simp add: GetDynamicNfsExportContentNameForNfsExport_def exampleNfsExport_def
        emptyObjectMeta_def)

subsection \<open>Error classification\<close>

lemma isCSIFinalError_StatusError:
  "isCSIFinalError (Some (StatusError c m)) =
     (c \<noteq> Canceled \<and> c \<noteq> DeadlineExceeded \<and> c \<noteq> Unavailable
      \<and> c \<noteq> ResourceExhausted \<and> c \<noteq> Aborted)"
  by (simp add: isCSIFinalError_def)

text \<open>On the nil error, which stands for the status \<^verbatim>\<open>OK\<close>, the classifier answers true.\<close>

lemma isCSIFinalError_nil: "isCSIFinalError None"
  by (simp add: isCSIFinalError_def OK_def Canceled_def DeadlineExceeded_def Unavailable_def
        ResourceExhausted_def Aborted_def)

lemma isCSIFinalError_other:
  "\<not> isCSIFinalError (Some (OtherError m))"
  "\<not> isCSIFinalError (Some (Errorf f args))"
  "\<not> isCSIFinalError (Some (controllerUpdateError f args))"
  by (simp_all add: isCSIFinalError_def)

text \<open>
  Claim C3.  An error is final exactly when it carries a gRPC status whose code is none of
  \<^verbatim>\<open>Canceled\<close>, \<^verbatim>\<open>DeadlineExceeded\<close>, \<^verbatim>\<open>Unavailable\<close>,
  \<^verbatim>\<open>ResourceExhausted\<close> and \<^verbatim>\<open>Aborted\<close>; in particular an error without a gRPC
  status is not final.  (The classifier is only called on an error that is not nil.)
\<close>

theorem isCSIFinalError_iff:
  "isCSIFinalError (Some err) \<longleftrightarrow>
     (\<exists>c m. err = StatusError c m
            \<and> c \<noteq> Canceled \<and> c \<noteq> DeadlineExceeded \<and> c \<noteq> Unavailable
            \<and> c \<noteq> ResourceExhausted \<and> c \<noteq> Aborted)"
  by (cases err) (simp_all add: isCSIFinalError_StatusError isCSIFinalError_other)

theorem isCSIFinalError_iff_witness:
  "isCSIFinalError (Some (StatusError 5 ''not found''))
   \<and> \<not> isCSIFinalError (Some (StatusError 4 ''deadline exceeded''))
   \<and> \<not> isCSIFinalError (Some (OtherError ''connection refused''))"
  using isCSIFinalError_iff [of "StatusError 5 ''not found''"]
        isCSIFinalError_iff [of "StatusError 4 ''deadline exceeded''"]
        isCSIFinalError_iff [of "OtherError ''connection refused''"]
  by (simp add: Canceled_def DeadlineExceeded_def Unavailable_def ResourceExhausted_def
        Aborted_def)

subsection \<open>Deletion predicate\<close>

text \<open>
  Claim C4, as the code has it.  A content should be deleted exactly when its deletion
  timestamp is set and either it is pre-provisioned and unbound, or it carries the
  being-deleted annotation and does not carry the being-created annotation.  The
  being-created annotation defers the deletion in the second case only.
\<close>

theorem shouldDelete_iff:
  "shouldDelete content \<longleftrightarrow>
     DeletionTimestamp (content_ObjectMeta content) \<noteq> None
     \<and> ((NfsExportHandle (Source (content_Spec content)) \<noteq> None
          \<and> ref_UID (VolumeNfsExportRef (content_Spec content)) = [])
        \<or> (HasAnnotation (content_ObjectMeta content) AnnVolumeNfsExportBeingDeleted
            \<and> \<not> HasAnnotation (content_ObjectMeta content) AnnVolumeNfsExportBeingCreated))"
  by (auto simp add: shouldDelete_def)

lemma example_annotations:
  "HasAnnotation (content_ObjectMeta deletedContent) AnnVolumeNfsExportBeingDeleted"
  "\<not> HasAnnotation (content_ObjectMeta deletedContent) AnnVolumeNfsExportBeingCreated"
  "HasAnnotation (content_ObjectMeta deletedContentBeingCreated) AnnVolumeNfsExportBeingDeleted"
  "HasAnnotation (content_ObjectMeta deletedContentBeingCreated) AnnVolumeNfsExportBeingCreated"
  "HasAnnotation (content_ObjectMeta unboundContentBeingCreated) AnnVolumeNfsExportBeingCreated"
  "\<not> HasAnnotation (content_ObjectMeta unboundContentBeingCreated) AnnVolumeNfsExportBeingDeleted"
  by (simp_all add: HasAnnotation_def deletedContent_def deletedContentBeingCreated_def
        unboundContentBeingCreated_def emptyObjectMeta_def
        AnnVolumeNfsExportBeingDeleted_def AnnVolumeNfsExportBeingCreated_def)

lemma example_deletion_fields:
  "DeletionTimestamp (content_ObjectMeta deletedContent) = Some 5"
  "DeletionTimestamp (content_ObjectMeta deletedContentBeingCreated) = Some 5"
  "DeletionTimestamp (content_ObjectMeta unboundContentBeingCreated) = Some 5"
  "NfsExportHandle (Source (content_Spec deletedContent)) = None"
  "NfsExportHandle (Source (content_Spec deletedContentBeingCreated)) = None"
  "NfsExportHandle (Source (content_Spec unboundContentBeingCreated)) = Some ''e2''"
  "ref_UID (VolumeNfsExportRef (content_Spec unboundContentBeingCreated)) = []"
  by (simp_all add: deletedContent_def deletedContentBeingCreated_def
        unboundContentBeingCreated_def emptyObjectMeta_def)

theorem shouldDelete_iff_witness:
  "shouldDelete deletedContent
   \<and> \<not> shouldDelete deletedContentBeingCreated
   \<and> shouldDelete unboundContentBeingCreated"
  using shouldDelete_iff [of deletedContent] shouldDelete_iff [of deletedContentBeingCreated]
        shouldDelete_iff [of unboundContentBeingCreated]
  by (simp add: example_annotations example_deletion_fields)

text \<open>
  The claim fails on both of its halves: a content with deletion timestamp and
  being-deleted annotation is not to be deleted while it carries the being-created
  annotation, and a pre-provisioned unbound content is to be deleted although it carries
  the being-created annotation.
\<close>

theorem shouldDelete_counterexample:
  "(DeletionTimestamp (content_ObjectMeta deletedContentBeingCreated) \<noteq> None
      \<and> HasAnnotation (content_ObjectMeta deletedContentBeingCreated) AnnVolumeNfsExportBeingDeleted
      \<and> \<not> shouldDelete deletedContentBeingCreated)
   \<and> (HasAnnotation (content_ObjectMeta unboundContentBeingCreated) AnnVolumeNfsExportBeingCreated
      \<and> shouldDelete unboundContentBeingCreated)"
  by (simp add: shouldDelete_def example_annotations example_deletion_fields)

subsection \<open>Export name\<close>

text \<open>
  Claim C6, as the code has it.  For a UID that is not empty, the export name is the
  prefix, a dash and the UID when the configured length is \<open>-1\<close>, and the prefix, a dash
  and the first \<open>n\<close> bytes of the UID without its dashes when the configured length \<open>n\<close>
  lies between 0 and the length of the UID without its dashes.  The name is a function of
  the prefix, the UID and the length alone.
\<close>

theorem makeNfsExportName_cases:
  assumes "nfsexportUID \<noteq> []"
  shows "makeNfsExportName prefix nfsexportUID (- 1) = Return (Inr (prefix @ ''-'' @ nfsexportUID))
         \<and> (0 \<le> n \<and> n \<le> int (length (remove_dashes nfsexportUID)) \<longrightarrow>
              makeNfsExportName prefix nfsexportUID n
                = Return (Inr (prefix @ ''-'' @ take (nat n) (remove_dashes nfsexportUID))))"
  using assms by (auto simp add: makeNfsExportName_def slice_to_def)

theorem makeNfsExportName_cases_witness:
  "makeNfsExportName ''nfsexport'' ''ab-cd'' (- 1) = Return (Inr ''nfsexport-ab-cd'')
   \<and> makeNfsExportName ''nfsexport'' ''ab-cd'' 3 = Return (Inr ''nfsexport-abc'')"
  using makeNfsExportName_cases [where nfsexportUID = "''ab-cd''" and n = 3 and prefix = "''nfsexport''"]
  by (simp add: remove_dashes_def)

text \<open>
  With the length 0, which is not positive, the name is not the prefix, a dash and the
  UID; with a positive length beyond the UID without dashes there is no name at all.
\<close>

theorem makeNfsExportName_counterexample:
  "\<not> (0 < (0::int))
   \<and> makeNfsExportName ''nfsexport'' ''ab-cd'' 0 \<noteq> Return (Inr (''nfsexport'' @ ''-'' @ ''ab-cd''))
   \<and> makeNfsExportName ''nfsexport'' ''ab-cd'' 0 = Return (Inr ''nfsexport-'')
   \<and> makeNfsExportName ''nfsexport'' ''ab-cd'' 5 = Panic ''slice bounds out of range''"
  by (simp add: makeNfsExportName_def slice_to_def remove_dashes_def)

subsection \<open>Default class per driver\<close>

lemma defaultClassLoop_Allowed:
  "Allowed (defaultClassLoop ret snapClass) \<longleftrightarrow>
     \<not> (\<exists>c \<in> set ret.
           map_index (Annotations (class_ObjectMeta c)) IsDefaultNfsExportClassAnnotation = ''true''
           \<and> class_Driver c = class_Driver snapClass)"
  by (induction ret) (auto simp add: reviewResponse0_def)

text \<open>
  Claim C7.  A class that does not set the default annotation to \<open>true\<close> is allowed.  A
  class that sets it is allowed when the old object set it too and has the same driver.
  Otherwise, when the lister answers, the class is rejected exactly when a class of the
  list carries the annotation and has the driver of the new class; so it is rejected
  whenever another class of that driver is the default already.
\<close>

theorem decideNfsExportClassV1_default_unique:
  "(map_index (Annotations (class_ObjectMeta snapClass)) IsDefaultNfsExportClassAnnotation \<noteq> ''true''
      \<longrightarrow> Allowed (decideNfsExportClassV1 snapClass oldSnapClass lister_List))
   \<and> (map_index (Annotations (class_ObjectMeta snapClass)) IsDefaultNfsExportClassAnnotation = ''true''
      \<and> map_index (Annotations (class_ObjectMeta oldSnapClass)) IsDefaultNfsExportClassAnnotation
          = ''true''
      \<and> class_Driver oldSnapClass = class_Driver snapClass
      \<longrightarrow> Allowed (decideNfsExportClassV1 snapClass oldSnapClass lister_List))
   \<and> (map_index (Annotations (class_ObjectMeta snapClass)) IsDefaultNfsExportClassAnnotation = ''true''
      \<and> \<not> (map_index (Annotations (class_ObjectMeta oldSnapClass)) IsDefaultNfsExportClassAnnotation
               = ''true''
             \<and> class_Driver oldSnapClass = class_Driver snapClass)
      \<and> lister_List = Inr ret
      \<longrightarrow> (Allowed (decideNfsExportClassV1 snapClass oldSnapClass lister_List) \<longleftrightarrow>
           \<not> (\<exists>c \<in> set ret.
                 map_index (Annotations (class_ObjectMeta c)) IsDefaultNfsExportClassAnnotation
                   = ''true''
                 \<and> class_Driver c = class_Driver snapClass)))"
  by (auto simp add: decideNfsExportClassV1_def reviewResponse0_def defaultClassLoop_Allowed)

lemma example_classes:
  "map_index (Annotations (class_ObjectMeta defaultClassA)) IsDefaultNfsExportClassAnnotation = ''true''"
  "map_index (Annotations (class_ObjectMeta defaultClassB)) IsDefaultNfsExportClassAnnotation = ''true''"
  "map_index (Annotations (class_ObjectMeta plainClassB)) IsDefaultNfsExportClassAnnotation = []"
  "class_Driver defaultClassA = ''D''" "class_Driver defaultClassB = ''D''"
  "class_Driver plainClassB = ''D''"
  by (simp_all add: defaultClassA_def defaultClassB_def plainClassB_def map_index_def
        emptyObjectMeta_def)

theorem decideNfsExportClassV1_default_unique_witness:
  "Allowed (decideNfsExportClassV1 plainClassB plainClassB (Inr [defaultClassA, plainClassB]))
   \<and> Allowed (decideNfsExportClassV1 defaultClassB defaultClassB (Inr [defaultClassA, defaultClassB]))
   \<and> \<not> Allowed (decideNfsExportClassV1 defaultClassB plainClassB (Inr [defaultClassA, plainClassB]))
   \<and> Allowed (decideNfsExportClassV1 defaultClassB plainClassB (Inr [plainClassB]))"
  using decideNfsExportClassV1_default_unique
          [of plainClassB plainClassB "Inr [defaultClassA, plainClassB]" "[defaultClassA, plainClassB]"]
        decideNfsExportClassV1_default_unique
          [of defaultClassB defaultClassB "Inr [defaultClassA, defaultClassB]"
              "[defaultClassA, defaultClassB]"]
        decideNfsExportClassV1_default_unique
          [of defaultClassB plainClassB "Inr [defaultClassA, plainClassB]"
              "[defaultClassA, plainClassB]"]
        decideNfsExportClassV1_default_unique
          [of defaultClassB plainClassB "Inr [plainClassB]" "[plainClassB]"]
  by (simp add: example_classes)

subsection \<open>Controller cache\<close>

lemma ParseInt_examples:
  "ParseInt ''6'' = Inr 6" "ParseInt ''7'' = Inr 7"
  "ParseInt [] = Inl (Errorf ''strconv.ParseInt: parsing %q: invalid syntax'' [Inl []])"
  by (simp_all add: ParseInt_def digit_value_def)

lemma withResourceVersion_fields:
  "content_Spec (withResourceVersion rv c) = content_Spec c"
  "content_Status (withResourceVersion rv c) = content_Status c"
  "Name (content_ObjectMeta (withResourceVersion rv c)) = Name (content_ObjectMeta c)"
  "Finalizers (content_ObjectMeta (withResourceVersion rv c)) = Finalizers (content_ObjectMeta c)"
  "ResourceVersion (content_ObjectMeta (withResourceVersion rv c)) = rv"
  "keyFunc (content_ObjectMeta (withResourceVersion rv c)) = keyFunc (content_ObjectMeta c)"
  "shouldDelete (withResourceVersion rv c) = shouldDelete c"
  by (simp_all add: withResourceVersion_def keyFunc_def shouldDelete_def HasAnnotation_def)

lemma clearedContent_fields:
  "content_ObjectMeta clearedContent = content_ObjectMeta deletedContent"
  "content_Spec clearedContent = content_Spec deletedContent"
  "content_Status clearedContent
     = Some \<lparr>status_NfsExportHandle = None, status_CreationTime = None,
             status_RestoreSize = None, status_ReadyToUse = None,
             status_Error = Some \<lparr>Time = Some 2, Message = Some ''earlier failure''\<rparr>\<rparr>"
  "shouldDelete clearedContent"
  by (simp_all add: clearedContent_def shouldDelete_def example_deletion_fields
        example_annotations)

lemma deletedContent_meta:
  "keyFunc (content_ObjectMeta deletedContent) = ''c1''"
  "ResourceVersion (content_ObjectMeta deletedContent) = ''7''"
  "Finalizers (content_ObjectMeta deletedContent) = [VolumeNfsExportContentFinalizer]"
  by (simp_all add: keyFunc_def deletedContent_def emptyObjectMeta_def)

text \<open>
  An object whose key is not cached is added whatever its resource version is.  When the
  key is cached and one of the two resource versions is not a number of 64 bits, the
  update is refused with an error and the cache is left as it is.  When both are
  numbers, the update is refused without error exactly when the offered one is smaller.
\<close>

lemma StoreObjectUpdate_new_key:
  assumes "store (keyFunc (meta obj)) = None"
  shows "StoreObjectUpdate meta store obj className
           = (store(keyFunc (meta obj) \<mapsto> obj), True, None)"
  using assms by (simp add: StoreObjectUpdate_def)

lemma StoreObjectUpdate_unparsable:
  assumes "store (keyFunc (meta obj)) = Some oldObj"
    and "ParseInt (ResourceVersion (meta obj)) = Inl e
         \<or> ParseInt (ResourceVersion (meta oldObj)) = Inl e"
  shows "\<exists>err. StoreObjectUpdate meta store obj className = (store, False, Some err)"
  using assms
  by (cases "ParseInt (ResourceVersion (meta obj))")
     (auto simp add: StoreObjectUpdate_def)

lemma StoreObjectUpdate_numeric:
  assumes "store (keyFunc (meta obj)) = Some oldObj"
    and "ParseInt (ResourceVersion (meta obj)) = Inr new"
    and "ParseInt (ResourceVersion (meta oldObj)) = Inr old"
  shows "StoreObjectUpdate meta store obj className =
           (if new < old then (store, False, None)
            else (store(keyFunc (meta obj) \<mapsto> obj), True, None))"
  using assms by (simp add: StoreObjectUpdate_def)

lemma StoreObjectUpdate_monotone:
  assumes "store (keyFunc (meta obj)) = Some oldObj"
    and "ParseInt (ResourceVersion (meta oldObj)) = Inr old"
  shows "\<exists>cur v. fst (StoreObjectUpdate meta store obj className) (keyFunc (meta obj)) = Some cur
                 \<and> ParseInt (ResourceVersion (meta cur)) = Inr v \<and> old \<le> v"
proof (cases "ParseInt (ResourceVersion (meta obj))")
  case (Inl e)
  with assms(1) obtain err
    where "StoreObjectUpdate meta store obj className = (store, False, Some err)"
    using StoreObjectUpdate_unparsable [of store meta obj oldObj e className] by blast
  with assms show ?thesis by simp
next
  case (Inr new)
  have "StoreObjectUpdate meta store obj className
          = (if new < old then (store, False, None)
             else (store(keyFunc (meta obj) \<mapsto> obj), True, None))"
    using StoreObjectUpdate_numeric [of store meta obj oldObj new old className] assms Inr
    by blast
  with assms Inr show ?thesis by simp
qed

text \<open>
  Claim C8, as the code has it.  For every object offered to the cache: when no object
  is cached under its key, the object is added and the answer is true.  When one is
  cached and both resource versions are numbers of 64 bits, the update is rejected, with
  the answer false, no error and the cache unchanged, exactly when the offered version is
  strictly smaller than the cached one; otherwise, and so for an equal version, the
  offered object replaces the cached one and the answer is true.  When one is cached and
  the offered or the cached resource version is not such a number, the answer is false
  with an error and the cache is unchanged.  Hence a cached resource version that is a
  number never decreases.
\<close>

theorem StoreObjectUpdate_resource_version:
  "(store (keyFunc (meta obj)) = None \<longrightarrow>
      StoreObjectUpdate meta store obj className
        = (store(keyFunc (meta obj) \<mapsto> obj), True, None))
   \<and> (\<forall>oldObj new old.
        store (keyFunc (meta obj)) = Some oldObj
        \<and> ParseInt (ResourceVersion (meta obj)) = Inr new
        \<and> ParseInt (ResourceVersion (meta oldObj)) = Inr old \<longrightarrow>
        StoreObjectUpdate meta store obj className
          = (if new < old then (store, False, None)
             else (store(keyFunc (meta obj) \<mapsto> obj), True, None)))
   \<and> (\<forall>oldObj e.
        store (keyFunc (meta obj)) = Some oldObj
        \<and> (ParseInt (ResourceVersion (meta obj)) = Inl e
             \<or> ParseInt (ResourceVersion (meta oldObj)) = Inl e) \<longrightarrow>
        (\<exists>err. StoreObjectUpdate meta store obj className = (store, False, Some err)))
   \<and> (\<forall>oldObj old.
        store (keyFunc (meta obj)) = Some oldObj
        \<and> ParseInt (ResourceVersion (meta oldObj)) = Inr old \<longrightarrow>
        (\<exists>cur v. fst (StoreObjectUpdate meta store obj className) (keyFunc (meta obj)) = Some cur
                 \<and> ParseInt (ResourceVersion (meta cur)) = Inr v \<and> old \<le> v))"
proof (intro conjI allI impI)
  assume "store (keyFunc (meta obj)) = None"
  then show "StoreObjectUpdate meta store obj className
               = (store(keyFunc (meta obj) \<mapsto> obj), True, None)"
    by (rule StoreObjectUpdate_new_key)
next
  fix oldObj new old
  assume "store (keyFunc (meta obj)) = Some oldObj
        \<and> ParseInt (ResourceVersion (meta obj)) = Inr new
        \<and> ParseInt (ResourceVersion (meta oldObj)) = Inr old"
  then show "StoreObjectUpdate meta store obj className
          = (if new < old then (store, False, None)
             else (store(keyFunc (meta obj) \<mapsto> obj), True, None))"
    using StoreObjectUpdate_numeric [of store meta obj oldObj new old className] by blast
next
  fix oldObj e
  assume "store (keyFunc (meta obj)) = Some oldObj
        \<and> (ParseInt (ResourceVersion (meta obj)) = Inl e
             \<or> ParseInt (ResourceVersion (meta oldObj)) = Inl e)"
  then show "\<exists>err. StoreObjectUpdate meta store obj className = (store, False, Some err)"
    using StoreObjectUpdate_unparsable [of store meta obj oldObj e className] by blast
next
  fix oldObj old
  assume "store (keyFunc (meta obj)) = Some oldObj
        \<and> ParseInt (ResourceVersion (meta oldObj)) = Inr old"
  then show "\<exists>cur v. fst (StoreObjectUpdate meta store obj className) (keyFunc (meta obj)) = Some cur
                 \<and> ParseInt (ResourceVersion (meta cur)) = Inr v \<and> old \<le> v"
    using StoreObjectUpdate_monotone [of store meta obj oldObj old className] by blast
qed

lemma clearedContent_differs: "clearedContent \<noteq> deletedContent"
proof
  assume "clearedContent = deletedContent"
  then have "content_Status clearedContent = content_Status deletedContent"
    by simp
  then show False
    by (simp add: clearedContent_fields deletedContent_def exampleStatus_def)
qed

lemma cache_example_keys:
  "keyFunc (content_ObjectMeta clearedContent) = ''c1''"
  "ResourceVersion (content_ObjectMeta clearedContent) = ''7''"
  "keyFunc (content_ObjectMeta (withResourceVersion rv clearedContent)) = ''c1''"
  by (simp_all add: withResourceVersion_fields clearedContent_fields deletedContent_meta)

theorem StoreObjectUpdate_resource_version_witness:
  "StoreObjectUpdate content_ObjectMeta Map.empty deletedContent ''content''
     = ([''c1'' \<mapsto> deletedContent], True, None)
   \<and> StoreObjectUpdate content_ObjectMeta [''c1'' \<mapsto> deletedContent] clearedContent ''content''
     = ([''c1'' \<mapsto> clearedContent], True, None)
   \<and> clearedContent \<noteq> deletedContent
   \<and> StoreObjectUpdate content_ObjectMeta [''c1'' \<mapsto> deletedContent]
        (withResourceVersion ''6'' clearedContent) ''content''
     = ([''c1'' \<mapsto> deletedContent], False, None)
   \<and> (\<exists>err. StoreObjectUpdate content_ObjectMeta [''c1'' \<mapsto> deletedContent]
               (withResourceVersion [] clearedContent) ''content''
             = ([''c1'' \<mapsto> deletedContent], False, Some err))
   \<and> (\<exists>cur v. fst (StoreObjectUpdate content_ObjectMeta [''c1'' \<mapsto> deletedContent]
                     (withResourceVersion ''6'' clearedContent) ''content'') ''c1'' = Some cur
              \<and> ParseInt (ResourceVersion (content_ObjectMeta cur)) = Inr v \<and> 7 \<le> v)"
proof -
  note k = deletedContent_meta cache_example_keys withResourceVersion_fields(5)
  have a: "StoreObjectUpdate content_ObjectMeta Map.empty deletedContent ''content''
             = ([''c1'' \<mapsto> deletedContent], True, None)"
    using StoreObjectUpdate_resource_version
            [where store = Map.empty and meta = content_ObjectMeta and obj = deletedContent
               and className = "''content''"]
    by (simp add: k)
  have b: "StoreObjectUpdate content_ObjectMeta [''c1'' \<mapsto> deletedContent] clearedContent ''content''
             = ([''c1'' \<mapsto> clearedContent], True, None)"
    using StoreObjectUpdate_resource_version
            [where store = "[''c1'' \<mapsto> deletedContent]" and meta = content_ObjectMeta
               and obj = clearedContent and className = "''content''"]
    by (simp add: k ParseInt_examples)
  note T = StoreObjectUpdate_resource_version
            [where store = "[''c1'' \<mapsto> deletedContent]" and meta = content_ObjectMeta
               and obj = "withResourceVersion ''6'' clearedContent" and className = "''content''"]
  have c: "StoreObjectUpdate content_ObjectMeta [''c1'' \<mapsto> deletedContent]
             (withResourceVersion ''6'' clearedContent) ''content''
           = ([''c1'' \<mapsto> deletedContent], False, None)"
    using T by (simp add: k ParseInt_examples)
  have d: "\<exists>err. StoreObjectUpdate content_ObjectMeta [''c1'' \<mapsto> deletedContent]
               (withResourceVersion [] clearedContent) ''content''
             = ([''c1'' \<mapsto> deletedContent], False, Some err)"
    using StoreObjectUpdate_resource_version
            [where store = "[''c1'' \<mapsto> deletedContent]" and meta = content_ObjectMeta
               and obj = "withResourceVersion [] clearedContent" and className = "''content''"]
    by (simp add: k ParseInt_examples)
  have e: "\<exists>cur v. fst (StoreObjectUpdate content_ObjectMeta [''c1'' \<mapsto> deletedContent]
                     (withResourceVersion ''6'' clearedContent) ''content'') ''c1'' = Some cur
              \<and> ParseInt (ResourceVersion (content_ObjectMeta cur)) = Inr v \<and> 7 \<le> v"
    using T by (simp add: k ParseInt_examples)
  from a b c d e clearedContent_differs show ?thesis by simp
qed

text \<open>
  The claim fails for resource versions that are not numbers.  An offer without resource
  version is not strictly older than the cached version 7, yet it is answered false; and
  an offer at the version 7 is refused when the cached object has no resource version, as
  the content has that the common controller caches when the API server reports that it
  exists already.
\<close>

theorem StoreObjectUpdate_counterexample:
  "ParseInt (ResourceVersion (content_ObjectMeta (withResourceVersion [] clearedContent)))
     = Inl (Errorf ''strconv.ParseInt: parsing %q: invalid syntax'' [Inl []])
   \<and> StoreObjectUpdate content_ObjectMeta [''c1'' \<mapsto> deletedContent]
        (withResourceVersion [] clearedContent) ''content''
     = ([''c1'' \<mapsto> deletedContent], False,
        Some (Errorf ''error parsing ResourceVersion %q of %s %q: %s''
                [Inl [], Inl ''content'', Inl ''c1'',
                 Inr (Errorf ''strconv.ParseInt: parsing %q: invalid syntax'' [Inl []])]))
   \<and> StoreObjectUpdate content_ObjectMeta [''snapcontent-u1'' \<mapsto> exampleCreatedContent]
        (withResourceVersion ''7'' exampleCreatedContent) ''content''
     = ([''snapcontent-u1'' \<mapsto> exampleCreatedContent], False,
        Some (Errorf ''error parsing old ResourceVersion %q of %s %q: %s''
                [Inl [], Inl ''content'', Inl ''snapcontent-u1'',
                 Inr (Errorf ''strconv.ParseInt: parsing %q: invalid syntax'' [Inl []])]))"
proof -
  have c: "keyFunc (content_ObjectMeta exampleCreatedContent) = ''snapcontent-u1''"
          "ResourceVersion (content_ObjectMeta exampleCreatedContent) = []"
    by (simp_all add: keyFunc_def exampleCreatedContent_def emptyObjectMeta_def)
  show ?thesis
    by (simp add: StoreObjectUpdate_def Let_def withResourceVersion_fields cache_example_keys
          deletedContent_meta ParseInt_examples c)
qed

subsection \<open>Metrics\<close>

lemma operation_names_distinct:
  "CreateNfsExportOperationName \<noteq> DeleteNfsExportOperationName"
  "CreateNfsExportAndReadyOperationName \<noteq> DeleteNfsExportOperationName"
  "CreateNfsExportOperationName \<noteq> CreateNfsExportAndReadyOperationName"
  by (simp_all add: CreateNfsExportOperationName_def CreateNfsExportAndReadyOperationName_def
        DeleteNfsExportOperationName_def)

text \<open>
  Claim C9.  Recording a delete operation whose entry is cached observes the delete and
  then, for the same resource, each of the create and the create-and-ready entries that
  is still cached, with the status cancel and the duration of the delete observation; the
  entries of the three keys are gone from the cache afterwards.
\<close>

theorem RecordMetrics_delete_cancels_creates:
  assumes "op_Name opKey = DeleteNfsExportOperationName" and "cache opMgr opKey = Some opVal"
  shows "opLatencyMetrics (RecordMetrics opMgr now opKey opStatus driverName) =
           opLatencyMetrics opMgr
           @ [\<lparr>obs_driver = (if driverName = [] \<or> driverName = unknownDriverName
                               then op_Driver opVal else driverName),
                obs_operation = DeleteNfsExportOperationName,
                obs_type = NfsExportType opVal,
                obs_status = (case opStatus of None \<Rightarrow> NfsExportStatusTypeUnknown | Some s \<Rightarrow> s),
                obs_duration = now - startTime opVal\<rparr>]
           @ (case cache opMgr (NewOperationKey CreateNfsExportOperationName (ResourceID opKey)) of
                None \<Rightarrow> []
              | Some v \<Rightarrow> [\<lparr>obs_driver = op_Driver v, obs_operation = CreateNfsExportOperationName,
                            obs_type = NfsExportType v, obs_status = NfsExportStatusTypeCancel,
                            obs_duration = now - startTime opVal\<rparr>])
           @ (case cache opMgr (NewOperationKey CreateNfsExportAndReadyOperationName
                                  (ResourceID opKey)) of
                None \<Rightarrow> []
              | Some v \<Rightarrow> [\<lparr>obs_driver = op_Driver v,
                            obs_operation = CreateNfsExportAndReadyOperationName,
                            obs_type = NfsExportType v, obs_status = NfsExportStatusTypeCancel,
                            obs_duration = now - startTime opVal\<rparr>])
         \<and> cache (RecordMetrics opMgr now opKey opStatus driverName) =
             (cache opMgr)
               (NewOperationKey CreateNfsExportOperationName (ResourceID opKey) := None,
                NewOperationKey CreateNfsExportAndReadyOperationName (ResourceID opKey) := None,
                opKey := None)"
proof -
  have ne: "NewOperationKey CreateNfsExportOperationName (ResourceID opKey)
              \<noteq> NewOperationKey CreateNfsExportAndReadyOperationName (ResourceID opKey)"
    using operation_names_distinct by (simp add: NewOperationKey_def)
  have obs: "opLatencyMetrics (RecordMetrics opMgr now opKey opStatus driverName) =
           opLatencyMetrics opMgr
           @ [\<lparr>obs_driver = (if driverName = [] \<or> driverName = unknownDriverName
                               then op_Driver opVal else driverName),
                obs_operation = DeleteNfsExportOperationName,
                obs_type = NfsExportType opVal,
                obs_status = (case opStatus of None \<Rightarrow> NfsExportStatusTypeUnknown | Some s \<Rightarrow> s),
                obs_duration = now - startTime opVal\<rparr>]
           @ (case cache opMgr (NewOperationKey CreateNfsExportOperationName (ResourceID opKey)) of
                None \<Rightarrow> []
              | Some v \<Rightarrow> [\<lparr>obs_driver = op_Driver v, obs_operation = CreateNfsExportOperationName,
                            obs_type = NfsExportType v, obs_status = NfsExportStatusTypeCancel,
                            obs_duration = now - startTime opVal\<rparr>])
           @ (case cache opMgr (NewOperationKey CreateNfsExportAndReadyOperationName
                                  (ResourceID opKey)) of
                None \<Rightarrow> []
              | Some v \<Rightarrow> [\<lparr>obs_driver = op_Driver v,
                            obs_operation = CreateNfsExportAndReadyOperationName,
                            obs_type = NfsExportType v, obs_status = NfsExportStatusTypeCancel,
                            obs_duration = now - startTime opVal\<rparr>])"
    using assms ne
    by (simp add: RecordMetrics_def Let_def recordCancelMetricLocked_def NewOperationKey_def
          split: option.splits)
  have "cache (RecordMetrics opMgr now opKey opStatus driverName) k =
          ((cache opMgr)
             (NewOperationKey CreateNfsExportOperationName (ResourceID opKey) := None,
              NewOperationKey CreateNfsExportAndReadyOperationName (ResourceID opKey) := None,
              opKey := None)) k" for k
    using assms ne
    by (simp add: RecordMetrics_def Let_def recordCancelMetricLocked_def NewOperationKey_def
          split: option.splits)
  then have "cache (RecordMetrics opMgr now opKey opStatus driverName) =
             (cache opMgr)
               (NewOperationKey CreateNfsExportOperationName (ResourceID opKey) := None,
                NewOperationKey CreateNfsExportAndReadyOperationName (ResourceID opKey) := None,
                opKey := None)"
    by (rule ext)
  with obs show ?thesis by (rule conjI)
qed

theorem RecordMetrics_delete_cancels_creates_witness:
  "opLatencyMetrics (RecordMetrics exampleMetrics 100
       (NewOperationKey DeleteNfsExportOperationName ''u1'') (Some NfsExportStatusTypeSuccess) ''D'')
     = [\<lparr>obs_driver = ''D'', obs_operation = DeleteNfsExportOperationName,
          obs_type = ''dynamic'', obs_status = NfsExportStatusTypeSuccess, obs_duration = 60\<rparr>,
        \<lparr>obs_driver = ''D'', obs_operation = CreateNfsExportOperationName,
          obs_type = ''dynamic'', obs_status = NfsExportStatusTypeCancel, obs_duration = 60\<rparr>,
        \<lparr>obs_driver = ''D'', obs_operation = CreateNfsExportAndReadyOperationName,
          obs_type = ''dynamic'', obs_status = NfsExportStatusTypeCancel, obs_duration = 60\<rparr>]
   \<and> cache (RecordMetrics exampleMetrics 100
       (NewOperationKey DeleteNfsExportOperationName ''u1'') (Some NfsExportStatusTypeSuccess) ''D'')
     = Map.empty"
proof -
  let ?k = "NewOperationKey DeleteNfsExportOperationName ''u1''"
  have n: "op_Name ?k = DeleteNfsExportOperationName" "ResourceID ?k = ''u1''"
    by (simp_all add: NewOperationKey_def)
  have c: "cache exampleMetrics ?k = Some (exampleValue 40)"
          "cache exampleMetrics (NewOperationKey CreateNfsExportOperationName ''u1'')
             = Some (exampleValue 10)"
          "cache exampleMetrics (NewOperationKey CreateNfsExportAndReadyOperationName ''u1'')
             = Some (exampleValue 10)"
    using operation_names_distinct by (simp_all add: exampleMetrics_def NewOperationKey_def)
  have e: "(cache exampleMetrics)
             (NewOperationKey CreateNfsExportOperationName ''u1'' := None,
              NewOperationKey CreateNfsExportAndReadyOperationName ''u1'' := None,
              ?k := None) = Map.empty"
    by (rule ext) (simp add: exampleMetrics_def)
  show ?thesis
    using RecordMetrics_delete_cancels_creates
            [of ?k exampleMetrics "exampleValue 40" 100 "Some NfsExportStatusTypeSuccess" "''D''",
             OF n(1) c(1)]
    by (simp add: n c e exampleValue_def unknownDriverName_def exampleMetrics_def)
qed

subsection \<open>Immutability of the source volume mode\<close>

text \<open>
  Claim C10.  On an update of a content whose source handles are unchanged, the
  immutability check panics with a nil dereference exactly when the conversion flag is
  enabled and one of the old and the new source volume mode is nil while the other is
  set; the validator then panics as well instead of returning a response.  When both
  modes are set, or both are nil, the check returns.
\<close>

theorem checkNfsExportContentImmutableFieldsV1_nil_mode_panics:
  "(checkNfsExportContentImmutableFieldsV1 flag (Some new) (Some old) = Panic nilDereference
      \<longleftrightarrow> flag
          \<and> VolumeHandle (Source (content_Spec new)) = VolumeHandle (Source (content_Spec old))
          \<and> NfsExportHandle (Source (content_Spec new)) = NfsExportHandle (Source (content_Spec old))
          \<and> ((SourceVolumeMode (content_Spec old) = None)
               \<noteq> (SourceVolumeMode (content_Spec new) = None)))
   \<and> (decideNfsExportContentV1 flag (Some new) (Some old) True = Panic nilDereference
      \<longleftrightarrow> checkNfsExportContentImmutableFieldsV1 flag (Some new) (Some old) = Panic nilDereference)
   \<and> (\<forall>p. checkNfsExportContentImmutableFieldsV1 flag (Some new) (Some old) = Panic p
          \<longrightarrow> p = nilDereference)"
proof (intro conjI allI impI)
  show "checkNfsExportContentImmutableFieldsV1 flag (Some new) (Some old) = Panic nilDereference
      \<longleftrightarrow> flag
          \<and> VolumeHandle (Source (content_Spec new)) = VolumeHandle (Source (content_Spec old))
          \<and> NfsExportHandle (Source (content_Spec new)) = NfsExportHandle (Source (content_Spec old))
          \<and> ((SourceVolumeMode (content_Spec old) = None)
               \<noteq> (SourceVolumeMode (content_Spec new) = None))"
    by (auto simp add: checkNfsExportContentImmutableFieldsV1_def Let_def split: option.splits)
next
  show "decideNfsExportContentV1 flag (Some new) (Some old) True = Panic nilDereference
      \<longleftrightarrow> checkNfsExportContentImmutableFieldsV1 flag (Some new) (Some old) = Panic nilDereference"
    by (simp add: decideNfsExportContentV1_def split: outcome.splits option.splits)
next
  fix p assume "checkNfsExportContentImmutableFieldsV1 flag (Some new) (Some old) = Panic p"
  then show "p = nilDereference"
    by (auto simp add: checkNfsExportContentImmutableFieldsV1_def Let_def
          split: option.splits if_splits)
qed

theorem checkNfsExportContentImmutableFieldsV1_nil_mode_panics_witness:
  "checkNfsExportContentImmutableFieldsV1 True (Some contentWithMode) (Some exampleCreatedContent)
     = Panic nilDereference
   \<and> decideNfsExportContentV1 True (Some contentWithMode) (Some exampleCreatedContent) True
     = Panic nilDereference
   \<and> checkNfsExportContentImmutableFieldsV1 True (Some contentWithMode) (Some contentWithMode)
     \<noteq> Panic nilDereference"
  using checkNfsExportContentImmutableFieldsV1_nil_mode_panics
          [of True contentWithMode exampleCreatedContent]
        checkNfsExportContentImmutableFieldsV1_nil_mode_panics
          [of True contentWithMode contentWithMode]
  by (simp add: contentWithMode_def exampleCreatedContent_def)

subsection \<open>Deletion of the export by the sidecar\<close>











end
